theory Spec2Isabelle
  imports Main "HOL-Library.Sublist"
begin

section \<open>Values exchanged with the libraries\<close>

text \<open>
  The service of \<^verbatim>\<open>rag_service.py\<close> and the endpoint of \<^verbatim>\<open>chat.py\<close> call four
  library operations: the text splitter, the FAISS index constructor, the retriever
  query and \<^verbatim>\<open>ollama.chat\<close>. None of them is code of the repository, so each is a
  parameter of the model: a function that takes the state of the outside world and
  returns a result, or the exception it raised, with the new world.

  Both handlers of the source are \<^verbatim>\<open>except Exception\<close>: they catch the instances of
  \<^verbatim>\<open>Exception\<close> and let the other instances of \<^verbatim>\<open>BaseException\<close> through
  (\<^verbatim>\<open>KeyboardInterrupt\<close>, \<^verbatim>\<open>SystemExit\<close>). The two kinds are kept apart; the string
  is the name of the exception's class.
\<close>

datatype py_raise = Exception string | BaseException string

text \<open>A langchain \<^verbatim>\<open>Document\<close>; the chunks the splitter returns are documents too.\<close>

record document =
  page_content :: string
  metadata :: "(string \<times> string) list"

text \<open>
  A message of a chat; in a response of the client library the content is optional.
\<close>

record chat_message =
  role :: string
  content :: "string option"

record chat_request =
  model :: string
  messages :: "chat_message list"
  options :: "(string \<times> int) list option"

record chat_response =
  message :: chat_message

datatype embeddings = OllamaEmbeddings string

record text_splitter =
  chunk_size :: nat
  chunk_overlap :: nat

text \<open>
  \<^verbatim>\<open>as_retriever()\<close> with no argument wraps the store it is called on, with the
  library's default search settings; the retriever is modelled as that reference.
\<close>

datatype 'vs retriever = VectorStoreRetriever 'vs

definition as_retriever :: "'vs \<Rightarrow> 'vs retriever" where
  "as_retriever vector_store = VectorStoreRetriever vector_store"

record ('vs, 'w) externals =
  split_documents :: "text_splitter \<Rightarrow> document list \<Rightarrow> 'w \<Rightarrow> (py_raise + document list) \<times> 'w"
  from_documents :: "document list \<Rightarrow> embeddings \<Rightarrow> 'w \<Rightarrow> (py_raise + 'vs) \<times> 'w"
  ollama_chat :: "chat_request \<Rightarrow> 'w \<Rightarrow> (py_raise + chat_response) \<times> 'w"
  invoke :: "'vs retriever \<Rightarrow> string \<Rightarrow> 'w \<Rightarrow> (py_raise + document list) \<times> 'w"

section \<open>The service and the program state\<close>

text \<open>
  The fields of \<^verbatim>\<open>RAGService\<close>. A FAISS store defines neither \<^verbatim>\<open>__bool__\<close> nor
  \<^verbatim>\<open>__len__\<close>, so the truth value of a field in \<^verbatim>\<open>get_retriever\<close> is whether it
  is not \<^verbatim>\<open>None\<close>.
\<close>

record 'vs rag_service =
  embeddings :: embeddings
  personal_vector_store :: "'vs option"
  projects_vector_store :: "'vs option"

text \<open>
  The state a method runs in: the module's \<^verbatim>\<open>rag_service_instance\<close> and the outside
  world. Every method takes the state and returns it, updated. Output printed to the
  console is not part of the state.
\<close>

record ('vs, 'w) state =
  service :: "'vs rag_service"
  world :: 'w

definition rag_service_init :: "'vs rag_service" where
  "rag_service_init =
     \<lparr>embeddings = OllamaEmbeddings ''llama3'',
      personal_vector_store = None,
      projects_vector_store = None\<rparr>"

section \<open>Strings\<close>

text \<open>
  \<^verbatim>\<open>str.strip()\<close> and \<^verbatim>\<open>str.lower()\<close> on ASCII text: the white space of
  \<^verbatim>\<open>str.isspace\<close> below 128, and the letters A to Z. Other characters are neither
  white space nor cased here. \<^verbatim>\<open>a in b\<close> on strings is \<^const>\<open>sublist\<close>.
\<close>

definition isspace :: "char \<Rightarrow> bool" where
  "isspace c = (c \<in> set [CHR 0x09, CHR 0x0A, CHR 0x0B, CHR 0x0C, CHR 0x0D,
                          CHR 0x1C, CHR 0x1D, CHR 0x1E, CHR 0x1F, CHR '' ''])"

definition lower_char :: "char \<Rightarrow> char" where
  "lower_char c =
     (case map_of (zip ''ABCDEFGHIJKLMNOPQRSTUVWXYZ'' ''abcdefghijklmnopqrstuvwxyz'') c of
        Some l \<Rightarrow> l
      | None \<Rightarrow> c)"

definition lower :: "string \<Rightarrow> string" where
  "lower s = map lower_char s"

definition strip :: "string \<Rightarrow> string" where
  "strip s = rev (dropWhile isspace (rev (dropWhile isspace s)))"

definition newline :: string where
  "newline = [CHR 0x0A]"

definition dquote :: string where
  "dquote = [CHR 0x22]"

definition backquote :: string where
  "backquote = [CHR 0x60]"

text \<open>\<^verbatim>\<open>sep.join(parts)\<close>.\<close>

fun join :: "string \<Rightarrow> string list \<Rightarrow> string" where
  "join sep [] = []"
| "join sep [p] = p"
| "join sep (p # q # ps) = p @ sep @ join sep (q # ps)"

section \<open>rag\_service.py\<close>

text \<open>
  \<^verbatim>\<open>RAGService._create_vector_store\<close> (an Isabelle name cannot start with an
  underscore).
\<close>

definition create_vector_store ::
  "('vs, 'w) externals \<Rightarrow> document list \<Rightarrow> ('vs, 'w) state
     \<Rightarrow> (py_raise + 'vs option) \<times> ('vs, 'w) state" where
  "create_vector_store ext documents s =
     (if documents = [] then (Inr None, s)
      else
        (case split_documents ext \<lparr>chunk_size = 1000, chunk_overlap = 100\<rparr> documents (world s) of
           (Inl e, w1) \<Rightarrow> (Inl e, s\<lparr>world := w1\<rparr>)
         | (Inr chunks, w1) \<Rightarrow>
             (case from_documents ext chunks (embeddings (service s)) w1 of
                (Inl e, w2) \<Rightarrow> (Inl e, s\<lparr>world := w2\<rparr>)
              | (Inr vector_store, w2) \<Rightarrow> (Inr (Some vector_store), s\<lparr>world := w2\<rparr>))))"

text \<open>
  \<^verbatim>\<open>RAGService.build_knowledge_bases\<close>: two assignments in sequence, with no handler
  around either. An exception leaves the method at once; an assignment made before it
  stays.
\<close>

definition build_knowledge_bases ::
  "('vs, 'w) externals \<Rightarrow> document list \<Rightarrow> document list \<Rightarrow> ('vs, 'w) state
     \<Rightarrow> (py_raise + unit) \<times> ('vs, 'w) state" where
  "build_knowledge_bases ext personal_docs project_docs s =
     (case create_vector_store ext personal_docs s of
        (Inl e, s1) \<Rightarrow> (Inl e, s1)
      | (Inr personal, s1) \<Rightarrow>
          (let s2 = s1\<lparr>service := (service s1)\<lparr>personal_vector_store := personal\<rparr>\<rparr> in
           case create_vector_store ext project_docs s2 of
             (Inl e, s3) \<Rightarrow> (Inl e, s3)
           | (Inr projects, s3) \<Rightarrow>
               (Inr (), s3\<lparr>service := (service s3)\<lparr>projects_vector_store := projects\<rparr>\<rparr>)))"

text \<open>The f-string of \<^verbatim>\<open>route_query\<close>, line by line.\<close>

definition routing_prompt :: "string \<Rightarrow> string" where
  "routing_prompt query =
     newline
     @ ''        You are a query routing expert. Your task is to classify the user's question into one of two categories based on its content:'' @ newline
     @ newline
     @ ''        1.  **personal_info**: For questions about Alyyan's skills, education, experience, contact details, or personal background.'' @ newline
     @ ''        2.  **project_info**: For questions about specific technical projects, repositories, code, or architecture.'' @ newline
     @ newline
     @ ''        User Question: '' @ dquote @ query @ dquote @ newline
     @ ''        '' @ newline
     @ ''        Category:'' @ newline
     @ ''        ''"

definition routing_request :: "string \<Rightarrow> chat_request" where
  "routing_request query =
     \<lparr>model = ''llama3'',
      messages = [\<lparr>role = ''user'', content = Some (routing_prompt query)\<rparr>],
      options = Some [(''temperature'', 0)]\<rparr>"

text \<open>
  The body of the \<^verbatim>\<open>try\<close> after the call: the category read from the response.
  A response without content makes \<^verbatim>\<open>.strip()\<close> raise, inside the \<^verbatim>\<open>try\<close>.
\<close>

definition category_of_response :: "chat_response \<Rightarrow> py_raise + string" where
  "category_of_response response =
     (case content (message response) of
        None \<Rightarrow> Inl (Exception ''AttributeError'')
      | Some c \<Rightarrow>
          (let category = lower (strip c) in
           if sublist ''personal_info'' category then Inr ''personal_info''
           else if sublist ''project_info'' category then Inr ''project_info''
           else Inr ''personal_info''))"

text \<open>\<^verbatim>\<open>RAGService.route_query\<close>, with its \<^verbatim>\<open>except Exception\<close>.\<close>

definition route_query ::
  "('vs, 'w) externals \<Rightarrow> string \<Rightarrow> ('vs, 'w) state \<Rightarrow> (py_raise + string) \<times> ('vs, 'w) state" where
  "route_query ext query s =
     (case ollama_chat ext (routing_request query) (world s) of
        (Inl (Exception e), w1) \<Rightarrow> (Inr ''personal_info'', s\<lparr>world := w1\<rparr>)
      | (Inl (BaseException e), w1) \<Rightarrow> (Inl (BaseException e), s\<lparr>world := w1\<rparr>)
      | (Inr response, w1) \<Rightarrow>
          (case category_of_response response of
             Inl (Exception e) \<Rightarrow> (Inr ''personal_info'', s\<lparr>world := w1\<rparr>)
           | Inl (BaseException e) \<Rightarrow> (Inl (BaseException e), s\<lparr>world := w1\<rparr>)
           | Inr category \<Rightarrow> (Inr category, s\<lparr>world := w1\<rparr>)))"

text \<open>\<^verbatim>\<open>RAGService.get_retriever\<close>; \<^verbatim>\<open>None\<close> is the result \<^const>\<open>None\<close>.\<close>

definition get_retriever ::
  "string \<Rightarrow> ('vs, 'w) state \<Rightarrow> 'vs retriever option \<times> ('vs, 'w) state" where
  "get_retriever category s =
     (if category = ''personal_info'' \<and> personal_vector_store (service s) \<noteq> None
      then (Some (as_retriever (the (personal_vector_store (service s)))), s)
      else if category = ''project_info'' \<and> projects_vector_store (service s) \<noteq> None
      then (Some (as_retriever (the (projects_vector_store (service s)))), s)
      else
        (if personal_vector_store (service s) \<noteq> None
         then Some (as_retriever (the (personal_vector_store (service s))))
         else None, s))"

section \<open>chat.py\<close>

text \<open>The request and response schemas of the endpoint.\<close>

datatype chat_request_schema = ChatRequest string

datatype chat_response_schema = ChatResponse string

text \<open>\<^verbatim>\<open>PROMPT_TEMPLATE.format(context=context, question=question)\<close>, line by line.\<close>

definition prompt_template :: "string \<Rightarrow> string \<Rightarrow> string" where
  "prompt_template context question =
     newline
     @ ''### ROLE ###'' @ newline
     @ ''You are an expert AI assistant for Alyyan Ahmed's professional portfolio, named '' @ dquote @ ''PortfolioAI'' @ dquote @ ''.'' @ newline
     @ ''You must be professional, articulate, and provide well-structured, readable answers.'' @ newline
     @ newline
     @ ''### TASK ###'' @ newline
     @ ''Your task is to answer questions about Alyyan Ahmed based *exclusively* on the provided context information.'' @ newline
     @ ''Do not use any external knowledge.'' @ newline
     @ newline
     @ ''### FORMATTING RULES ###'' @ newline
     @ ''- **Use Markdown for all formatting.**'' @ newline
     @ ''- Use **bolding** for emphasis on key terms, technologies, or titles.'' @ newline
     @ ''- Use bullet points (using '' @ backquote @ ''-'' @ backquote @ '') for lists of skills, projects, or responsibilities.'' @ newline
     @ ''- Keep answers concise and to the point.'' @ newline
     @ newline
     @ ''### BEHAVIORAL RULES ###'' @ newline
     @ ''1.  **Analyze the User's Question:** Understand the user's intent.'' @ newline
     @ ''2.  **Scan the Context:** Find the answer only within the provided context.'' @ newline
     @ ''3.  **Synthesize a Professional Answer:** Formulate a direct answer using the specified Markdown formatting.'' @ newline
     @ ''4.  **Handle Missing Information:** If the answer is not in the context, you MUST state: '' @ dquote @ ''Based on the provided information, I cannot answer that question.'' @ dquote @ '' Do not apologize or guess.'' @ newline
     @ ''5.  **Self-Awareness:** If the user asks about '' @ dquote @ ''you'' @ dquote @ '' (the AI), your purpose, or your architecture, you MUST prioritize information from context that has the source 'self'.'' @ newline
     @ newline
     @ ''### CONTEXT ###'' @ newline
     @ context @ newline
     @ newline
     @ ''### USER QUESTION ###'' @ newline
     @ question @ newline
     @ newline
     @ ''### YOUR ANSWER (in Markdown) ###'' @ newline"

definition answer_request :: "string \<Rightarrow> chat_request" where
  "answer_request prompt =
     \<lparr>model = ''llama3'',
      messages = [\<lparr>role = ''user'', content = Some prompt\<rparr>],
      options = None\<rparr>"

text \<open>
  Steps 2 and 3 of \<^verbatim>\<open>process_chat_message\<close> (lines 54 to 60): the retriever is
  asked for, and queried unless it is \<^verbatim>\<open>None\<close>. With no retriever the endpoint returns
  at line 57 and line 60 never runs, so no list of documents exists on that path.
\<close>

datatype retrieval = NoRetriever | RelevantDocs "document list"

definition retrieve ::
  "('vs, 'w) externals \<Rightarrow> string \<Rightarrow> string \<Rightarrow> ('vs, 'w) state
     \<Rightarrow> (py_raise + retrieval) \<times> ('vs, 'w) state" where
  "retrieve ext category question s =
     (case get_retriever category s of
        (None, s1) \<Rightarrow> (Inr NoRetriever, s1)
      | (Some retriever, s1) \<Rightarrow>
          (case invoke ext retriever question (world s1) of
             (Inl e, w1) \<Rightarrow> (Inl e, s1\<lparr>world := w1\<rparr>)
           | (Inr relevant_docs, w1) \<Rightarrow> (Inr (RelevantDocs relevant_docs), s1\<lparr>world := w1\<rparr>)))"

text \<open>
  Step 4: the answer is generated from the joined documents. The response schema
  requires a string, so a response without content raises a validation error.
\<close>

definition generate_answer ::
  "('vs, 'w) externals \<Rightarrow> document list \<Rightarrow> string \<Rightarrow> ('vs, 'w) state
     \<Rightarrow> (py_raise + chat_response_schema) \<times> ('vs, 'w) state" where
  "generate_answer ext relevant_docs question s =
     (let context = join (newline @ newline) (map page_content relevant_docs);
          prompt = prompt_template context question
      in case ollama_chat ext (answer_request prompt) (world s) of
           (Inl e, w1) \<Rightarrow> (Inl e, s\<lparr>world := w1\<rparr>)
         | (Inr response, w1) \<Rightarrow>
             (case content (message response) of
                None \<Rightarrow> (Inl (Exception ''ValidationError''), s\<lparr>world := w1\<rparr>)
              | Some answer \<Rightarrow> (Inr (ChatResponse answer), s\<lparr>world := w1\<rparr>)))"

text \<open>The body of the \<^verbatim>\<open>try\<close> of \<^verbatim>\<open>process_chat_message\<close>.\<close>

definition chat_body ::
  "('vs, 'w) externals \<Rightarrow> string \<Rightarrow> ('vs, 'w) state
     \<Rightarrow> (py_raise + chat_response_schema) \<times> ('vs, 'w) state" where
  "chat_body ext question s =
     (case route_query ext question s of
        (Inl e, s1) \<Rightarrow> (Inl e, s1)
      | (Inr category, s1) \<Rightarrow>
          (case retrieve ext category question s1 of
             (Inl e, s2) \<Rightarrow> (Inl e, s2)
           | (Inr NoRetriever, s2) \<Rightarrow>
               (Inr (ChatResponse ''Knowledge base is not available.''), s2)
           | (Inr (RelevantDocs relevant_docs), s2) \<Rightarrow>
               generate_answer ext relevant_docs question s2))"

text \<open>\<^verbatim>\<open>process_chat_message\<close>, with its \<^verbatim>\<open>except Exception\<close>.\<close>

definition process_chat_message ::
  "('vs, 'w) externals \<Rightarrow> chat_request_schema \<Rightarrow> ('vs, 'w) state
     \<Rightarrow> (py_raise + chat_response_schema) \<times> ('vs, 'w) state" where
  "process_chat_message ext request s =
     (case request of
        ChatRequest question \<Rightarrow>
          (case chat_body ext question s of
             (Inl (Exception e), s1) \<Rightarrow>
               (Inr (ChatResponse ''Sorry, I encountered an error. Please try again.''), s1)
           | (Inl (BaseException e), s1) \<Rightarrow> (Inl (BaseException e), s1)
           | (Inr response, s1) \<Rightarrow> (Inr response, s1)))"

section \<open>Stand-ins for the libraries\<close>

text \<open>
  Concrete libraries to run the model on: the world is the list of the calls made so
  far, a store is the list of its chunks. The splitter returns the documents as they
  are, the index constructor raises when a chunk has the body \<open>unreachable\<close>, the
  retriever returns the first four chunks of its store, and the chat model answers a
  routing request (the one with options) with the given reply.
\<close>

datatype call =
  SplitDocuments text_splitter "document list"
  | FromDocuments "document list" embeddings
  | OllamaChat chat_request
  | Invoke "document list retriever" string

definition assistant :: "string \<Rightarrow> chat_response" where
  "assistant reply = \<lparr>message = \<lparr>role = ''assistant'', content = Some reply\<rparr>\<rparr>"

definition recording :: "(py_raise + chat_response) \<Rightarrow> (document list, call list) externals" where
  "recording routing_reply =
     \<lparr>split_documents = (\<lambda>splitter documents w.
        (Inr documents, w @ [SplitDocuments splitter documents])),
      from_documents = (\<lambda>chunks emb w.
        (if ''unreachable'' \<in> set (map page_content chunks)
         then Inl (Exception ''ConnectionError'') else Inr chunks,
         w @ [FromDocuments chunks emb])),
      ollama_chat = (\<lambda>request w.
        (if options request = None then Inr (assistant ''An answer.'') else routing_reply,
         w @ [OllamaChat request])),
      invoke = (\<lambda>retriever question w.
        (case retriever of VectorStoreRetriever chunks \<Rightarrow> Inr (take 4 chunks),
         w @ [Invoke retriever question]))\<rparr>"

definition doc :: "string \<Rightarrow> document" where
  "doc body = \<lparr>page_content = body, metadata = [(''source'', ''test'')]\<rparr>"

definition started :: "(document list, call list) state" where
  "started = \<lparr>service = rag_service_init, world = []\<rparr>"

definition personal_only :: "(document list, call list) state" where
  "personal_only =
     \<lparr>service = rag_service_init
        \<lparr>personal_vector_store := Some [doc ''Alyyan has 3 years of backend experience'']\<rparr>,
      world = []\<rparr>"

section \<open>Frame lemmas\<close>

text \<open>Building an index and routing a query change the world only, never the service.\<close>

lemma create_vector_store_service:
  "service (snd (create_vector_store ext documents s)) = service s"
  by (simp add: create_vector_store_def split: prod.splits sum.splits)

lemma route_query_service:
  "service (snd (route_query ext query s)) = service s"
  by (simp add: route_query_def split: prod.splits sum.splits py_raise.splits)

section \<open>Labels survive stripping\<close>

text \<open>
  \<^verbatim>\<open>route_query\<close> looks for the labels in the stripped, lower-cased response. A label
  has no white space at either end, so stripping the response neither adds nor removes
  an occurrence: the test may as well be read on the lower-cased response.
\<close>

lemma isspace_lower_char: "isspace (lower_char c) = isspace c"
  by (simp add: isspace_def lower_char_def)

lemma sublist_dropWhile_iff:
  assumes "l \<noteq> []" and "\<not> P (hd l)"
  shows "sublist l (dropWhile P s) \<longleftrightarrow> sublist l s"
  using assms
  by (induction s) (auto simp: sublist_Cons_right prefix_Cons neq_Nil_conv)

lemma sublist_strip_iff:
  assumes "l \<noteq> []" and "\<not> isspace (hd l)" and "\<not> isspace (last l)"
  shows "sublist l (strip s) \<longleftrightarrow> sublist l s"
proof -
  have front: "sublist l (dropWhile isspace s) \<longleftrightarrow> sublist l s"
    using assms(1,2) by (rule sublist_dropWhile_iff)
  have "rev l \<noteq> []" and "\<not> isspace (hd (rev l))"
    using assms(1,3) by (simp_all add: hd_rev)
  then have rear: "sublist (rev l) (dropWhile isspace t) \<longleftrightarrow> sublist (rev l) t" for t
    by (rule sublist_dropWhile_iff)
  have "sublist l (strip s) \<longleftrightarrow> sublist (rev l) (dropWhile isspace (rev (dropWhile isspace s)))"
    unfolding strip_def by (simp add: sublist_rev_right)
  also have "\<dots> \<longleftrightarrow> sublist (rev l) (rev (dropWhile isspace s))"
    by (rule rear)
  also have "\<dots> \<longleftrightarrow> sublist l (dropWhile isspace s)"
    by simp
  finally show ?thesis
    using front by simp
qed

lemma lower_strip: "lower (strip s) = strip (lower s)"
proof -
  have comp: "isspace \<circ> lower_char = isspace"
    by (rule ext) (simp add: isspace_lower_char)
  show ?thesis
    by (simp add: lower_def strip_def dropWhile_map rev_map comp)
qed

lemma label_in_category:
  assumes "l \<noteq> []" and "\<not> isspace (hd l)" and "\<not> isspace (last l)"
  shows "sublist l (lower (strip c)) \<longleftrightarrow> sublist l (lower c)"
  by (simp add: lower_strip sublist_strip_iff [OF assms])

lemma personal_label:
  "sublist ''personal_info'' (lower (strip c)) \<longleftrightarrow> sublist ''personal_info'' (lower c)"
  by (rule label_in_category) (simp_all add: isspace_def)

lemma project_label:
  "sublist ''project_info'' (lower (strip c)) \<longleftrightarrow> sublist ''project_info'' (lower c)"
  by (rule label_in_category) (simp_all add: isspace_def)

section \<open>The query router\<close>

text \<open>
  Claim C4. When the model answers the routing request and the lower-cased content of
  its response contains neither label, or both, \<^verbatim>\<open>route_query\<close> returns
  \<open>personal_info\<close>; the only effect is the call to the model.
\<close>

theorem route_query_default:
  assumes "ollama_chat ext (routing_request query) (world s) = (Inr response, w)"
    and "content (message response) = Some reply"
    and "(\<not> sublist ''personal_info'' (lower reply) \<and> \<not> sublist ''project_info'' (lower reply))
         \<or> (sublist ''personal_info'' (lower reply) \<and> sublist ''project_info'' (lower reply))"
  shows "route_query ext query s = (Inr ''personal_info'', s\<lparr>world := w\<rparr>)"
  using assms
  by (auto simp: route_query_def category_of_response_def personal_label project_label)

theorem route_query_default_witness:
  "route_query (recording (Inr (assistant ''I am not sure.''))) ''Hello?'' started =
     (Inr ''personal_info'', started\<lparr>world := [OllamaChat (routing_request ''Hello?'')]\<rparr>)
   \<and> route_query (recording (Inr (assistant ''Either project_info or PERSONAL_INFO.'')))
        ''Hello?'' started =
     (Inr ''personal_info'', started\<lparr>world := [OllamaChat (routing_request ''Hello?'')]\<rparr>)"
proof -
  have call: "ollama_chat (recording (Inr (assistant reply))) (routing_request ''Hello?'')
        (world started) =
      (Inr (assistant reply), [OllamaChat (routing_request ''Hello?'')])" for reply
    by (simp add: recording_def started_def routing_request_def)
  have body: "content (message (assistant reply)) = Some reply" for reply
    by (simp add: assistant_def)
  have neither:
    "(\<not> sublist ''personal_info'' (lower ''I am not sure.'')
        \<and> \<not> sublist ''project_info'' (lower ''I am not sure.''))
     \<or> (sublist ''personal_info'' (lower ''I am not sure.'')
        \<and> sublist ''project_info'' (lower ''I am not sure.''))"
    by code_simp
  have both:
    "(\<not> sublist ''personal_info'' (lower ''Either project_info or PERSONAL_INFO.'')
        \<and> \<not> sublist ''project_info'' (lower ''Either project_info or PERSONAL_INFO.''))
     \<or> (sublist ''personal_info'' (lower ''Either project_info or PERSONAL_INFO.'')
        \<and> sublist ''project_info'' (lower ''Either project_info or PERSONAL_INFO.''))"
    by code_simp
  show ?thesis
    using route_query_default [OF call body neither] route_query_default [OF call body both]
    by simp
qed

text \<open>
  Claim C5. When the call to the model raises an exception that \<^verbatim>\<open>except Exception\<close>
  catches, \<^verbatim>\<open>route_query\<close> returns \<open>personal_info\<close> and raises nothing.
\<close>

theorem route_query_exception:
  assumes "ollama_chat ext (routing_request query) (world s) = (Inl (Exception e), w)"
  shows "route_query ext query s = (Inr ''personal_info'', s\<lparr>world := w\<rparr>)"
  using assms by (simp add: route_query_def)

theorem route_query_exception_witness:
  "route_query (recording (Inl (Exception ''ConnectionError''))) ''Hello?'' started =
     (Inr ''personal_info'', started\<lparr>world := [OllamaChat (routing_request ''Hello?'')]\<rparr>)"
proof -
  have call: "ollama_chat (recording (Inl (Exception ''ConnectionError'')))
        (routing_request ''Hello?'') (world started) =
      (Inl (Exception ''ConnectionError''), [OllamaChat (routing_request ''Hello?'')])"
    by (simp add: recording_def started_def routing_request_def)
  show ?thesis
    using route_query_exception [OF call] by simp
qed

text \<open>
  Claim C9. \<^verbatim>\<open>route_query\<close> leaves both vector indices as they were: whatever the
  model does, the two fields of the service hold the same values after the call.
\<close>

theorem route_query_frame:
  "personal_vector_store (service (snd (route_query ext query s))) =
     personal_vector_store (service s)
   \<and> projects_vector_store (service (snd (route_query ext query s))) =
     projects_vector_store (service s)"
  by (simp add: route_query_def split: prod.splits sum.splits py_raise.splits)

section \<open>The retrieval dispatcher\<close>

text \<open>
  Claim C1. When \<open>project_info\<close> is asked for, the project index is \<^verbatim>\<open>None\<close> and
  the personal index is not, \<^verbatim>\<open>get_retriever\<close> returns the retriever of the personal
  index, and the query that follows is the query of that retriever: its documents, or
  the exception it raised, are what the retrieval yields.
\<close>

theorem get_retriever_project_fallback:
  assumes "projects_vector_store (service s) = None"
    and "personal_vector_store (service s) = Some personal"
  shows "get_retriever ''project_info'' s = (Some (as_retriever personal), s)
    \<and> retrieve ext ''project_info'' question s =
        (case invoke ext (as_retriever personal) question (world s) of
           (Inl e, w) \<Rightarrow> (Inl e, s\<lparr>world := w\<rparr>)
         | (Inr chunks, w) \<Rightarrow> (Inr (RelevantDocs chunks), s\<lparr>world := w\<rparr>))"
  using assms by (simp add: get_retriever_def retrieve_def)

theorem get_retriever_project_fallback_witness:
  "get_retriever ''project_info'' personal_only =
     (Some (as_retriever [doc ''Alyyan has 3 years of backend experience'']), personal_only)
   \<and> retrieve (recording (Inr (assistant ''project_info''))) ''project_info''
        ''What did Alyyan build?'' personal_only =
     (Inr (RelevantDocs [doc ''Alyyan has 3 years of backend experience'']),
      personal_only\<lparr>world :=
        [Invoke (as_retriever [doc ''Alyyan has 3 years of backend experience''])
           ''What did Alyyan build?'']\<rparr>)"
proof -
  have h1: "projects_vector_store (service personal_only) = None"
    by (simp add: personal_only_def rag_service_init_def)
  have h2: "personal_vector_store (service personal_only) =
      Some [doc ''Alyyan has 3 years of backend experience'']"
    by (simp add: personal_only_def rag_service_init_def)
  have w: "world personal_only = []"
    by (simp add: personal_only_def)
  show ?thesis
    using get_retriever_project_fallback [OF h1 h2,
        of "recording (Inr (assistant ''project_info''))" "''What did Alyyan build?''"]
    by (simp add: w recording_def as_retriever_def)
qed

text \<open>
  The specification has the dispatcher return an empty sequence of chunks when both
  indices are \<^verbatim>\<open>None\<close>. The code returns no sequence on that path. Run on a service
  with no index, the retrieval step ends with no retriever, not with an empty list of
  documents, and the routing call is the only call made: had an empty list come back,
  the endpoint would have gone on to ask the model for an answer.
\<close>

theorem retrieval_without_index_counterexample:
  "fst (get_retriever ''project_info'' started) = None
   \<and> fst (retrieve (recording (Inr (assistant ''project_info''))) ''project_info''
           ''What did Alyyan build?'' started) = Inr NoRetriever
   \<and> fst (retrieve (recording (Inr (assistant ''project_info''))) ''project_info''
           ''What did Alyyan build?'' started) \<noteq> Inr (RelevantDocs [])
   \<and> process_chat_message (recording (Inr (assistant ''project_info'')))
        (ChatRequest ''What did Alyyan build?'') started =
       (Inr (ChatResponse ''Knowledge base is not available.''),
        started\<lparr>world := [OllamaChat (routing_request ''What did Alyyan build?'')]\<rparr>)"
proof -
  have g: "get_retriever ''project_info'' t = (None, t)"
    if "service t = rag_service_init" for t :: "(document list, call list) state"
    using that by (simp add: get_retriever_def rag_service_init_def)
  have r: "retrieve (recording (Inr (assistant ''project_info''))) ''project_info''
           ''What did Alyyan build?'' t = (Inr NoRetriever, t)"
    if "service t = rag_service_init" for t :: "(document list, call list) state"
    by (simp add: retrieve_def g [OF that])
  have c: "sublist ''personal_info'' (lower (strip ''project_info'')) = False"
    "sublist ''project_info'' (lower (strip ''project_info'')) = True"
    by code_simp+
  have q: "route_query (recording (Inr (assistant ''project_info''))) ''What did Alyyan build?''
        started =
      (Inr ''project_info'',
       started\<lparr>world := [OllamaChat (routing_request ''What did Alyyan build?'')]\<rparr>)"
    by (simp add: route_query_def recording_def category_of_response_def assistant_def c
        started_def routing_request_def)
  have sv: "service (started\<lparr>world := [OllamaChat (routing_request ''What did Alyyan build?'')]\<rparr>) =
      rag_service_init"
    by (simp add: started_def)
  have p: "process_chat_message (recording (Inr (assistant ''project_info'')))
        (ChatRequest ''What did Alyyan build?'') started =
       (Inr (ChatResponse ''Knowledge base is not available.''),
        started\<lparr>world := [OllamaChat (routing_request ''What did Alyyan build?'')]\<rparr>)"
    by (simp add: process_chat_message_def chat_body_def q r [OF sv])
  show ?thesis
    using g [of started] r [of started] p by (simp add: started_def)
qed

text \<open>
  Claim C2, as the code has it. With both indices \<^verbatim>\<open>None\<close>, \<^verbatim>\<open>get_retriever\<close>
  returns \<^verbatim>\<open>None\<close> for every category and raises nothing: there is no retriever, so
  no query runs and the world is as it was. The endpoint tests for \<^verbatim>\<open>None\<close> and
  answers that the knowledge base is not available, once the router has returned the
  category.
\<close>

theorem get_retriever_without_index:
  assumes "personal_vector_store (service s) = None"
    and "projects_vector_store (service s) = None"
  shows "get_retriever category s = (None, s)
    \<and> retrieve ext category question s = (Inr NoRetriever, s)
    \<and> (\<forall>s1. route_query ext question s = (Inr category, s1) \<longrightarrow>
          process_chat_message ext (ChatRequest question) s =
            (Inr (ChatResponse ''Knowledge base is not available.''), s1))"
proof -
  have g: "get_retriever category t = (None, t)"
    if "service t = service s" for t
    using assms that by (simp add: get_retriever_def)
  have r: "retrieve ext category question t = (Inr NoRetriever, t)"
    if "service t = service s" for t
    using g [OF that] by (simp add: retrieve_def)
  have "process_chat_message ext (ChatRequest question) s =
          (Inr (ChatResponse ''Knowledge base is not available.''), s1)"
    if "route_query ext question s = (Inr category, s1)" for s1
  proof -
    have "service s1 = service s"
      using route_query_service [of ext question s] that by simp
    then show ?thesis
      using that r [of s1] by (simp add: process_chat_message_def chat_body_def)
  qed
  then show ?thesis
    using g [of s] r [of s] by simp
qed

theorem get_retriever_without_index_witness:
  "get_retriever ''personal_info'' started = (None, started)
   \<and> retrieve (recording (Inr (assistant ''personal_info''))) ''personal_info''
        ''Who is Alyyan?'' started = (Inr NoRetriever, started)
   \<and> process_chat_message (recording (Inr (assistant ''personal_info'')))
        (ChatRequest ''Who is Alyyan?'') started =
       (Inr (ChatResponse ''Knowledge base is not available.''),
        started\<lparr>world := [OllamaChat (routing_request ''Who is Alyyan?'')]\<rparr>)"
proof -
  have h1: "personal_vector_store (service started) = None"
    and h2: "projects_vector_store (service started) = None"
    by (simp_all add: started_def rag_service_init_def)
  have c: "sublist ''personal_info'' (lower (strip ''personal_info'')) = True"
    by code_simp
  have q: "route_query (recording (Inr (assistant ''personal_info''))) ''Who is Alyyan?'' started =
      (Inr ''personal_info'',
       started\<lparr>world := [OllamaChat (routing_request ''Who is Alyyan?'')]\<rparr>)"
    by (simp add: route_query_def recording_def category_of_response_def assistant_def c
        started_def routing_request_def)
  show ?thesis
    using get_retriever_without_index [OF h1 h2,
        of "''personal_info''" "recording (Inr (assistant ''personal_info''))" "''Who is Alyyan?''"]
      q
    by simp
qed

text \<open>
  Claim C10. A category that is neither label raises nothing in \<^verbatim>\<open>get_retriever\<close>:
  the result is the retriever of the personal index when there is one and \<^verbatim>\<open>None\<close>
  otherwise, the same as for \<open>project_info\<close> with no project index.
\<close>

theorem get_retriever_unknown_category:
  assumes "category \<noteq> ''personal_info''" and "category \<noteq> ''project_info''"
  shows "get_retriever category s =
      (case personal_vector_store (service s) of
         None \<Rightarrow> None
       | Some personal \<Rightarrow> Some (as_retriever personal), s)
    \<and> fst (get_retriever category s) =
        fst (get_retriever ''project_info''
              (s\<lparr>service := (service s)\<lparr>projects_vector_store := None\<rparr>\<rparr>))"
  using assms by (auto simp: get_retriever_def split: option.splits)

theorem get_retriever_unknown_category_witness:
  "get_retriever ''general_info'' personal_only =
     (Some (as_retriever [doc ''Alyyan has 3 years of backend experience'']), personal_only)
   \<and> get_retriever ''general_info'' started = (None, started)"
proof -
  have h1: "''general_info'' \<noteq> ''personal_info''" and h2: "''general_info'' \<noteq> ''project_info''"
    by simp_all
  have p: "personal_vector_store (service personal_only) =
      Some [doc ''Alyyan has 3 years of backend experience'']"
    by (simp add: personal_only_def rag_service_init_def)
  have n: "personal_vector_store (service started) = None"
    by (simp add: started_def rag_service_init_def)
  show ?thesis
    using get_retriever_unknown_category [OF h1 h2, of personal_only]
      get_retriever_unknown_category [OF h1 h2, of started]
    by (simp add: p n)
qed

section \<open>The knowledge base builder\<close>

text \<open>
  Claim C6. \<^verbatim>\<open>_create_vector_store\<close> on an empty list returns \<^verbatim>\<open>None\<close> and raises
  nothing; the world comes back unchanged whatever the libraries are, so neither the
  splitter nor the index constructor was called. In \<^verbatim>\<open>build_knowledge_bases\<close>, two
  empty collections give two \<^verbatim>\<open>None\<close> indices and no exception; an empty personal
  collection gives a \<^verbatim>\<open>None\<close> personal index whatever the project documents are, and
  an empty project collection gives a \<^verbatim>\<open>None\<close> project index on the service as
  \<^verbatim>\<open>__init__\<close> made it, whatever the personal documents are. With one collection
  empty the method does what the build of the other collection does: an exception, if
  any, is that build's, and the empty collection adds no call.
\<close>

theorem create_vector_store_empty:
  "create_vector_store ext [] s = (Inr None, s)
   \<and> build_knowledge_bases ext [] [] s =
       (Inr (), s\<lparr>service := (service s)\<lparr>personal_vector_store := None,
                                          projects_vector_store := None\<rparr>\<rparr>)
   \<and> personal_vector_store (service (snd (build_knowledge_bases ext [] project_docs s))) = None
   \<and> projects_vector_store (service (snd (build_knowledge_bases ext personal_docs []
         \<lparr>service = rag_service_init, world = w\<rparr>))) = None
   \<and> build_knowledge_bases ext [] project_docs s =
       (case create_vector_store ext project_docs
               (s\<lparr>service := (service s)\<lparr>personal_vector_store := None\<rparr>\<rparr>) of
          (Inl e, s3) \<Rightarrow> (Inl e, s3)
        | (Inr projects, s3) \<Rightarrow>
            (Inr (), s3\<lparr>service := (service s3)\<lparr>projects_vector_store := projects\<rparr>\<rparr>))
   \<and> build_knowledge_bases ext personal_docs [] s =
       (case create_vector_store ext personal_docs s of
          (Inl e, s1) \<Rightarrow> (Inl e, s1)
        | (Inr personal, s1) \<Rightarrow>
            (Inr (), s1\<lparr>service := (service s1)\<lparr>personal_vector_store := personal,
                                                 projects_vector_store := None\<rparr>\<rparr>))"
proof (intro conjI)
  show c: "create_vector_store ext [] s = (Inr None, s)" for s :: "('a, 'b) state"
    by (simp add: create_vector_store_def)
  show "build_knowledge_bases ext [] [] s =
       (Inr (), s\<lparr>service := (service s)\<lparr>personal_vector_store := None,
                                          projects_vector_store := None\<rparr>\<rparr>)"
    by (simp add: build_knowledge_bases_def c)
  show "personal_vector_store (service (snd (build_knowledge_bases ext [] project_docs s))) = None"
    using create_vector_store_service
      [of ext project_docs "s\<lparr>service := (service s)\<lparr>personal_vector_store := None\<rparr>\<rparr>"]
    by (auto simp: build_knowledge_bases_def c split: prod.splits sum.splits)
  show "projects_vector_store (service (snd (build_knowledge_bases ext personal_docs []
         \<lparr>service = rag_service_init, world = w\<rparr>))) = None"
    using create_vector_store_service
      [of ext personal_docs "\<lparr>service = rag_service_init, world = w\<rparr>"]
    by (auto simp: build_knowledge_bases_def c rag_service_init_def split: prod.splits sum.splits)
  show "build_knowledge_bases ext [] project_docs s =
       (case create_vector_store ext project_docs
               (s\<lparr>service := (service s)\<lparr>personal_vector_store := None\<rparr>\<rparr>) of
          (Inl e, s3) \<Rightarrow> (Inl e, s3)
        | (Inr projects, s3) \<Rightarrow>
            (Inr (), s3\<lparr>service := (service s3)\<lparr>projects_vector_store := projects\<rparr>\<rparr>))"
    by (simp add: build_knowledge_bases_def c)
  show "build_knowledge_bases ext personal_docs [] s =
       (case create_vector_store ext personal_docs s of
          (Inl e, s1) \<Rightarrow> (Inl e, s1)
        | (Inr personal, s1) \<Rightarrow>
            (Inr (), s1\<lparr>service := (service s1)\<lparr>personal_vector_store := personal,
                                                 projects_vector_store := None\<rparr>\<rparr>))"
    by (simp add: build_knowledge_bases_def c split: prod.splits sum.splits)
qed

text \<open>
  The specification has the two builds isolated from each other. The code has no
  handler: with an index constructor that cannot embed the personal document, the
  project collection, which builds on its own, is never split or indexed, the exception
  leaves \<^verbatim>\<open>build_knowledge_bases\<close>, and the project index stays \<^verbatim>\<open>None\<close>.
\<close>

theorem build_knowledge_bases_isolation_counterexample:
  "create_vector_store (recording (Inr (assistant ''personal_info'')))
      [doc ''Repo X: a caching proxy''] started =
     (Inr (Some [doc ''Repo X: a caching proxy'']),
      started\<lparr>world :=
        [SplitDocuments \<lparr>chunk_size = 1000, chunk_overlap = 100\<rparr> [doc ''Repo X: a caching proxy''],
         FromDocuments [doc ''Repo X: a caching proxy''] (OllamaEmbeddings ''llama3'')]\<rparr>)
   \<and> build_knowledge_bases (recording (Inr (assistant ''personal_info'')))
      [doc ''unreachable''] [doc ''Repo X: a caching proxy''] started =
     (Inl (Exception ''ConnectionError''),
      started\<lparr>world :=
        [SplitDocuments \<lparr>chunk_size = 1000, chunk_overlap = 100\<rparr> [doc ''unreachable''],
         FromDocuments [doc ''unreachable''] (OllamaEmbeddings ''llama3'')]\<rparr>)
   \<and> projects_vector_store (service started) = None"
  by (simp add: build_knowledge_bases_def create_vector_store_def recording_def started_def
      rag_service_init_def doc_def)

text \<open>
  Claim C3, as the code has it. \<^verbatim>\<open>build_knowledge_bases\<close> builds the personal index,
  then the project index, and handles no exception. When the personal build raises, the
  exception leaves the method with the state the personal build left: the project build
  is not attempted and the project index is what it was. When the personal build
  completes and the project build raises, the exception leaves the method too, and the
  personal index, already assigned, stays.
\<close>

theorem build_knowledge_bases_propagates:
  "(create_vector_store ext personal_docs s = (Inl e, s1) \<longrightarrow>
      build_knowledge_bases ext personal_docs project_docs s = (Inl e, s1)
      \<and> projects_vector_store (service s1) = projects_vector_store (service s))
   \<and> (create_vector_store ext personal_docs s = (Inr personal, s1) \<and>
        create_vector_store ext project_docs
          (s1\<lparr>service := (service s1)\<lparr>personal_vector_store := personal\<rparr>\<rparr>) = (Inl e, s3) \<longrightarrow>
      build_knowledge_bases ext personal_docs project_docs s = (Inl e, s3)
      \<and> personal_vector_store (service s3) = personal)"
proof (intro conjI impI)
  assume a: "create_vector_store ext personal_docs s = (Inl e, s1)"
  then show "build_knowledge_bases ext personal_docs project_docs s = (Inl e, s1)"
    by (simp add: build_knowledge_bases_def)
  show "projects_vector_store (service s1) = projects_vector_store (service s)"
    using create_vector_store_service [of ext personal_docs s] a by simp
next
  assume a: "create_vector_store ext personal_docs s = (Inr personal, s1) \<and>
        create_vector_store ext project_docs
          (s1\<lparr>service := (service s1)\<lparr>personal_vector_store := personal\<rparr>\<rparr>) = (Inl e, s3)"
  then show "build_knowledge_bases ext personal_docs project_docs s = (Inl e, s3)"
    by (simp add: build_knowledge_bases_def)
  show "personal_vector_store (service s3) = personal"
    using create_vector_store_service [of ext project_docs
        "s1\<lparr>service := (service s1)\<lparr>personal_vector_store := personal\<rparr>\<rparr>"] a
    by simp
qed

theorem build_knowledge_bases_propagates_witness:
  "build_knowledge_bases (recording (Inr (assistant ''personal_info'')))
      [doc ''unreachable''] [doc ''Repo X: a caching proxy''] started =
     (Inl (Exception ''ConnectionError''),
      started\<lparr>world :=
        [SplitDocuments \<lparr>chunk_size = 1000, chunk_overlap = 100\<rparr> [doc ''unreachable''],
         FromDocuments [doc ''unreachable''] (OllamaEmbeddings ''llama3'')]\<rparr>)
   \<and> fst (build_knowledge_bases (recording (Inr (assistant ''personal_info'')))
      [doc ''Alyyan has 3 years of backend experience''] [doc ''unreachable''] started) =
     Inl (Exception ''ConnectionError'')
   \<and> personal_vector_store (service (snd (build_knowledge_bases
        (recording (Inr (assistant ''personal_info'')))
        [doc ''Alyyan has 3 years of backend experience''] [doc ''unreachable''] started))) =
     Some [doc ''Alyyan has 3 years of backend experience'']"
proof -
  let ?ext = "recording (Inr (assistant ''personal_info''))"
  let ?sp = "\<lparr>chunk_size = 1000, chunk_overlap = 100\<rparr>"
  let ?emb = "OllamaEmbeddings ''llama3''"
  let ?cv = "doc ''Alyyan has 3 years of backend experience''"
  let ?s1 = "started\<lparr>world := [SplitDocuments ?sp [doc ''unreachable''],
                                 FromDocuments [doc ''unreachable''] ?emb]\<rparr>"
  let ?t1 = "started\<lparr>world := [SplitDocuments ?sp [?cv], FromDocuments [?cv] ?emb]\<rparr>"
  let ?t3 = "\<lparr>service = rag_service_init\<lparr>personal_vector_store := Some [?cv]\<rparr>,
              world = [SplitDocuments ?sp [?cv], FromDocuments [?cv] ?emb,
                       SplitDocuments ?sp [doc ''unreachable''],
                       FromDocuments [doc ''unreachable''] ?emb]\<rparr>"
  have first: "create_vector_store ?ext [doc ''unreachable''] started =
      (Inl (Exception ''ConnectionError''), ?s1)"
    by (simp add: create_vector_store_def recording_def started_def rag_service_init_def doc_def)
  have second: "create_vector_store ?ext [?cv] started = (Inr (Some [?cv]), ?t1)
      \<and> create_vector_store ?ext [doc ''unreachable'']
          (?t1\<lparr>service := (service ?t1)\<lparr>personal_vector_store := Some [?cv]\<rparr>\<rparr>) =
        (Inl (Exception ''ConnectionError''), ?t3)"
    by (simp add: create_vector_store_def recording_def started_def rag_service_init_def doc_def)
  have a: "build_knowledge_bases ?ext [doc ''unreachable''] [doc ''Repo X: a caching proxy'']
      started = (Inl (Exception ''ConnectionError''), ?s1)"
    using build_knowledge_bases_propagates
      [of ?ext "[doc ''unreachable'']" started "Exception ''ConnectionError''" ?s1
          "[doc ''Repo X: a caching proxy'']"] first
    by blast
  have b: "build_knowledge_bases ?ext [?cv] [doc ''unreachable''] started =
      (Inl (Exception ''ConnectionError''), ?t3)"
    using build_knowledge_bases_propagates
      [of ?ext "[?cv]" started "Exception ''ConnectionError''" ?t1 "[doc ''unreachable'']"
          "Some [?cv]" ?t3] second
    by blast
  show ?thesis
    unfolding a b by simp
qed

end
